theory Spec2Isabelle
  imports Complex_Main
begin

section \<open>Query-string values and \<open>parseInt\<close>\<close>

text \<open>
  Express hands a handler the parsed query string in \<open>req.query\<close>. A parameter is
  missing (\<open>undefined\<close>), a string, an array (a repeated parameter) or, with the
  extended query parser, a nested object (bracket syntax), given here by its own keys:
  \<open>limit[toString]=x\<close> makes \<open>req.query.limit\<close> the object
  \<open>{ toString: "x" }\<close>. Strings are read as lists of ASCII code units.
\<close>

datatype qval = QUndefined | QString string | QArray "qval list" | QObject "string list"

text \<open>
  \<open>Array.prototype.join\<close> with the default separator: the elements' strings with
  a comma between them.
\<close>

fun join_comma :: "string list \<Rightarrow> string" where
  "join_comma [] = []"
| "join_comma [s] = s"
| "join_comma (s # t # ss) = s @ '','' @ join_comma (t # ss)"

text \<open>
  The abstract operation ToString, which \<open>parseInt\<close> applies to its argument first,
  in two parts: whether it throws a \<open>TypeError\<close>, and the string it returns when it
  does not. An object is printed by its \<open>toString\<close> method. The values of a query
  string are no functions, so an own key \<open>toString\<close> hides the inherited method
  behind a value that cannot be called, \<open>valueOf\<close> (inherited, or hidden in the
  same way) gives no primitive value either, and the conversion throws. An array prints
  its elements, an \<open>undefined\<close> element as the empty string, and throws when one
  of them does.
\<close>

fun throws :: "qval \<Rightarrow> bool" where
  "throws QUndefined = False"
| "throws (QString s) = False"
| "throws (QArray xs) = (\<exists>x \<in> set xs. throws x)"
| "throws (QObject keys) = (''toString'' \<in> set keys)"

fun toString :: "qval \<Rightarrow> string" where
  "toString QUndefined = ''undefined''"
| "toString (QString s) = s"
| "toString (QArray xs) =
     join_comma (map (\<lambda>x. if x = QUndefined then [] else toString x) xs)"
| "toString (QObject keys) = ''[object Object]''"

definition isWhiteSpace :: "char \<Rightarrow> bool" where
  \<comment> \<open>TAB, LF, VT, FF, CR and SP: the ASCII members of WhiteSpace and LineTerminator.\<close>
  "isWhiteSpace c = ((of_char c :: nat) \<in> {9, 10, 11, 12, 13, 32})"

definition digitValue :: "char \<Rightarrow> nat option" where
  \<comment> \<open>The value of a digit \<open>0-9\<close>, \<open>a-z\<close>, \<open>A-Z\<close>.\<close>
  "digitValue c =
     (let n = (of_char c :: nat) in
      if 48 \<le> n \<and> n \<le> 57 then Some (n - 48)
      else if 97 \<le> n \<and> n \<le> 122 then Some (n - 87)
      else if 65 \<le> n \<and> n \<le> 90 then Some (n - 55)
      else None)"

definition isRadixDigit :: "nat \<Rightarrow> char \<Rightarrow> bool" where
  "isRadixDigit R c = (case digitValue c of None \<Rightarrow> False | Some d \<Rightarrow> d < R)"

definition mathInt :: "nat \<Rightarrow> string \<Rightarrow> nat" where
  \<comment> \<open>The integer that the digit string \<open>Z\<close> denotes in radix \<open>R\<close>.\<close>
  "mathInt R Z =
     foldl (\<lambda>acc c. acc * R + (case digitValue c of None \<Rightarrow> 0 | Some d \<Rightarrow> d)) 0 Z"

text \<open>
  \<open>Number.parseInt(string)\<close> with no radix argument (ECMAScript, parseInt): leading
  white space is dropped, one sign is read, a \<open>0x\<close>/\<open>0X\<close> prefix selects radix 16,
  otherwise the radix is 10, and the longest prefix of digits is the number. No digit
  at all gives \<open>NaN\<close>, here \<open>None\<close>. The result is read as a mathematical integer,
  which a JavaScript Number holds exactly up to \<open>2^53\<close>; beyond that the Number is
  the nearest double, and \<open>Infinity\<close> from about 309 digits on, which this model
  does not follow. \<open>-0\<close> is \<open>0\<close>.
\<close>

definition parseInt :: "string \<Rightarrow> int option" where
  "parseInt inputString =
     (let S = dropWhile isWhiteSpace inputString;
          sign = (if S \<noteq> [] \<and> hd S = CHR ''-'' then - 1 else 1 :: int);
          S = (if S \<noteq> [] \<and> (hd S = CHR ''+'' \<or> hd S = CHR ''-'') then tl S else S);
          stripPrefix = (take 2 S = ''0x'' \<or> take 2 S = ''0X'');
          R = (if stripPrefix then 16 else 10);
          S = (if stripPrefix then drop 2 S else S);
          Z = takeWhile (isRadixDigit R) S
      in if Z = [] then None else Some (sign * int (mathInt R Z)))"

text \<open>
  \<open>x || d\<close> on a Number \<open>x\<close>: \<open>NaN\<close> and zero are falsy and give \<open>d\<close>, every
  other number is kept.
\<close>

definition js_or :: "int option \<Rightarrow> int \<Rightarrow> int" where
  "js_or x d = (case x of None \<Rightarrow> d | Some n \<Rightarrow> if n = 0 then d else n)"


section \<open>The paginator\<close>

text \<open>The two paging parameters of \<open>req.query\<close>.\<close>

record page_query =
  q_limit :: qval
  q_cursor :: qval

text \<open>
  What a handler can fail with: a failure of the document store, carrying the store's
  message, or a \<open>TypeError\<close> thrown by the JavaScript of the handler itself.
\<close>

datatype failure = StoreFailure string | TypeError string

text \<open>
  The collection handle, as far as \<open>paginateCollection\<close> uses it:
  \<open>countDocuments(filter)\<close> and the chain
  \<open>find(filter, {projection}).skip(n).limit(m).toArray()\<close>. Either call may be
  rejected by the store.
\<close>

record ('f, 'p, 'd) collection =
  countDocuments :: "'f \<Rightarrow> failure + nat"
  find_skip_limit :: "'f \<Rightarrow> 'p \<Rightarrow> int \<Rightarrow> int \<Rightarrow> failure + 'd list"

record 'd page =
  items :: "'d list"
  nextId :: "int option"
  previousId :: "int option"
  total_count :: int

definition pageSize :: "page_query \<Rightarrow> int" where
  \<comment> \<open>\<open>Number.parseInt(req.query.limit) || 6\<close>, where the conversion does not throw\<close>
  "pageSize q = js_or (parseInt (toString (q_limit q))) 6"

definition cursor :: "page_query \<Rightarrow> int" where
  \<comment> \<open>\<open>Number.parseInt(req.query.cursor) || 0\<close>, where the conversion does not throw\<close>
  "cursor q = js_or (parseInt (toString (q_cursor q))) 0"

definition adjustedCursor :: "int \<Rightarrow> int \<Rightarrow> int \<Rightarrow> int" where
  \<comment> \<open>\<open>cursor >= total ? Math.max(total - pageSize, 0) : cursor\<close>\<close>
  "adjustedCursor tot psize cur =
     (if cur \<ge> tot then max (tot - psize) 0 else cur)"

definition paginateCollection ::
  "('f, 'p, 'd) collection \<Rightarrow> page_query \<Rightarrow> 'f \<Rightarrow> 'p \<Rightarrow> failure + 'd page" where
  "paginateCollection coll q flt projection =
     (if throws (q_limit q) \<or> throws (q_cursor q)
      then Inl (TypeError ''Cannot convert object to primitive value'')
      else
        (case countDocuments coll flt of
           Inl e \<Rightarrow> Inl e
         | Inr n \<Rightarrow>
             (let tot = int n;
                  adj = adjustedCursor tot (pageSize q) (cursor q)
              in case find_skip_limit coll flt projection adj (pageSize q) of
                   Inl e \<Rightarrow> Inl e
                 | Inr its \<Rightarrow>
                     Inr \<lparr> items = its,
                           nextId = (if adj + pageSize q < tot
                                     then Some (adj + pageSize q) else None),
                           previousId = (if adj - pageSize q \<ge> 0
                                         then Some (adj - pageSize q) else None),
                           total_count = tot \<rparr>)))"

text \<open>
  A MongoDB collection holding the documents \<open>docs\<close>, read through the Node driver.
  A filter is a predicate on documents, a projection a map on documents
  (\<open>None\<close> for \<open>null\<close>). The server rejects a negative \<open>skip\<close>. The driver sends a
  negative \<open>limit\<close> as its absolute value with \<open>singleBatch\<close>, so that the reply
  ends with the first batch, which holds at most \<open>firstBatch\<close> documents; a
  \<open>limit\<close> of zero is no limit.
\<close>

record 'd store =
  docs :: "'d list"
  firstBatch :: nat

definition mongo_count :: "'d store \<Rightarrow> ('d \<Rightarrow> bool) \<Rightarrow> failure + nat" where
  "mongo_count s flt = Inr (length (filter flt (docs s)))"

definition mongo_find ::
  "'d store \<Rightarrow> ('d \<Rightarrow> bool) \<Rightarrow> ('d \<Rightarrow> 'd) option \<Rightarrow> int \<Rightarrow> int \<Rightarrow> failure + 'd list" where
  "mongo_find s flt projection sk lmt =
     (if sk < 0 then Inl (StoreFailure ''skip must be >= 0'')
      else
        (let rest = drop (nat sk) (filter flt (docs s));
             batch = (if lmt = 0 then rest
                      else if lmt < 0 then take (min (nat (- lmt)) (firstBatch s)) rest
                      else take (nat lmt) rest)
         in Inr (case projection of None \<Rightarrow> batch | Some p \<Rightarrow> map p batch)))"

definition mongo :: "'d store \<Rightarrow> ('d \<Rightarrow> bool, ('d \<Rightarrow> 'd) option, 'd) collection" where
  "mongo s = \<lparr> countDocuments = mongo_count s, find_skip_limit = mongo_find s \<rparr>"


section \<open>The recommendation ranker\<close>

text \<open>The three parameters of \<open>req.query\<close> that both recommendation handlers read.\<close>

record rec_query =
  r_categories :: qval
  r_district :: qval
  r_limit :: qval

text \<open>
  The value of a listing's \<open>created_at\<close>: a BSON date (milliseconds since the
  epoch), which the date arithmetic of the advanced pipeline works on, or the ISO-8601
  string that \<open>POST /add-pet\<close> stores
  (\<open>pet.created_at = new Date().toISOString()\<close>).
\<close>

datatype stamp = DateValue int | IsoString string

text \<open>A user document: its keys with their values, \<open>_id\<close> among them.\<close>

type_synonym 'v document = "(string \<times> 'v) list"

text \<open>
  A listing as the pipelines see it: the fields they inspect, with the types of the data
  model except for \<open>created_at\<close>, the three fields the advanced pipeline adds
  (\<open>None\<close> where the document has no such field), and the remaining fields in the
  record's extension. The type of \<open>added_by\<close> changes along
  the pipeline: the stored value (\<open>None\<close> if missing), then the array that
  \<open>$lookup\<close> puts in its place, then what \<open>$unwind\<close> leaves of it.
\<close>

record 'a pet =
  category :: string
  location :: "string option"
  adopted :: bool
  created_at :: stamp
  added_by :: 'a
  locationScore :: "rat option"
  freshnessScore :: "rat option"
  totalScore :: "rat option"

definition with_added_by :: "('a, 'z) pet_scheme \<Rightarrow> 'b \<Rightarrow> ('b, 'z) pet_scheme" where
  "with_added_by p x =
     \<lparr> category = category p, location = location p, adopted = adopted p,
       created_at = created_at p, added_by = x, locationScore = locationScore p,
       freshnessScore = freshnessScore p, totalScore = totalScore p,
       \<dots> = pet.more p \<rparr>"

text \<open>
  The store's regular expressions are a parameter: \<open>rx pat\<close> is the matcher of the
  pattern \<open>pat\<close> under option \<open>i\<close>, saying of a string whether it has a match,
  and \<open>None\<close> if the store rejects the pattern.
\<close>

type_synonym regex_engine = "string \<Rightarrow> (string \<Rightarrow> bool) option"

definition categoryArray :: "qval \<Rightarrow> qval list" where
  \<comment> \<open>\<open>Array.isArray(categories) ? categories : [categories]\<close>\<close>
  "categoryArray categories = (case categories of QArray xs \<Rightarrow> xs | _ \<Rightarrow> [categories])"

definition category_in :: "qval list \<Rightarrow> ('a, 'z) pet_scheme \<Rightarrow> bool" where
  \<comment> \<open>\<open>category: { $in: categoryArray }\<close>, on a string-valued \<open>category\<close>\<close>
  "category_in cats p = (QString (category p) \<in> set cats)"

definition district_regex :: "regex_engine \<Rightarrow> qval \<Rightarrow> failure + (string \<Rightarrow> bool)" where
  \<comment> \<open>\<open>{ $regex: district, $options: "i" }\<close>: only a string is a pattern\<close>
  "district_regex rx district =
     (case district of
        QString pat \<Rightarrow>
          (case rx pat of
             None \<Rightarrow> Inl (StoreFailure ''Regular expression is invalid'')
           | Some m \<Rightarrow> Inr m)
      | _ \<Rightarrow> Inl (StoreFailure ''$regex has to be a string''))"

definition regexMatch :: "(string \<Rightarrow> bool) \<Rightarrow> string option \<Rightarrow> bool" where
  \<comment> \<open>a missing input has no match\<close>
  "regexMatch m input = (case input of None \<Rightarrow> False | Some s \<Rightarrow> m s)"

definition limit_stage :: "qval \<Rightarrow> failure + nat" where
  \<comment> \<open>\<open>{ $limit: parseInt(limit) }\<close> with \<open>limit = 12\<close> by default, for a
      \<open>limit\<close> whose conversion does not throw; the store takes a positive integer only\<close>
  "limit_stage lmt =
     (case (case lmt of QUndefined \<Rightarrow> Some 12 | _ \<Rightarrow> parseInt (toString lmt)) of
        None \<Rightarrow> Inl (StoreFailure ''$limit: expected an integer'')
      | Some k \<Rightarrow>
          if k \<le> 0 then Inl (StoreFailure ''$limit: expected a positive number'')
          else Inr (nat k))"

definition match_basic :: "qval list \<Rightarrow> (string \<Rightarrow> bool) \<Rightarrow> ('a, 'z) pet_scheme \<Rightarrow> bool" where
  "match_basic cats m p =
     (category_in cats p \<and> regexMatch m (location p) \<and> adopted p = False)"

definition match_advanced :: "qval list \<Rightarrow> (string \<Rightarrow> bool) \<Rightarrow> ('a, 'z) pet_scheme \<Rightarrow> bool" where
  "match_advanced cats m p =
     (category_in cats p \<and> adopted p = False \<and>
      (regexMatch m (location p) \<or> location p = None))"

definition lookup_users ::
  "'v document list \<Rightarrow> ('v option, 'z) pet_scheme \<Rightarrow> ('v document list, 'z) pet_scheme" where
  \<comment> \<open>\<open>$lookup\<close> from \<open>users\<close>, \<open>added_by\<close> against \<open>_id\<close>, as \<open>added_by\<close>;
      a missing value matches a missing one\<close>
  "lookup_users users p =
     with_added_by p (filter (\<lambda>u. map_of u ''_id'' = added_by p) users)"

definition unwind_added_by ::
  "('v document list, 'z) pet_scheme \<Rightarrow> ('v document option, 'z) pet_scheme list" where
  \<comment> \<open>\<open>$unwind\<close> with \<open>preserveNullAndEmptyArrays\<close>: one document per element,
      and the document without the field when the array is empty\<close>
  "unwind_added_by p =
     (case added_by p of
        [] \<Rightarrow> [with_added_by p None]
      | us \<Rightarrow> map (\<lambda>u. with_added_by p (Some u)) us)"

definition strip_lister :: "'v document \<Rightarrow> 'v document" where
  \<comment> \<open>\<open>"added_by.password": 0, "added_by.email": 0\<close>\<close>
  "strip_lister u = filter (\<lambda>kv. fst kv \<noteq> ''password'' \<and> fst kv \<noteq> ''email'') u"

definition project_basic ::
  "('v document option, 'z) pet_scheme \<Rightarrow> ('v document option, 'z) pet_scheme" where
  "project_basic p = p\<lparr> added_by := map_option strip_lister (added_by p) \<rparr>"

definition project_advanced ::
  "('v document option, 'z) pet_scheme \<Rightarrow> ('v document option, 'z) pet_scheme" where
  "project_advanced p =
     p\<lparr> locationScore := None, freshnessScore := None, totalScore := None,
        added_by := map_option strip_lister (added_by p) \<rparr>"

text \<open>
  The first \<open>$addFields\<close> stage of the advanced pipeline, one definition for each of
  its two expressions. \<open>now\<close> is the \<open>new Date()\<close> of the request, in
  milliseconds. \<open>$subtract\<close> of two dates is their distance in milliseconds; it rejects
  a string operand, and the error ends the aggregation. The scores are exact rationals
  where the store computes doubles: two totals closer than the rounding of a double can
  compare differently in the store than they do here.
\<close>

definition location_score :: "(string \<Rightarrow> bool) \<Rightarrow> string option \<Rightarrow> rat" where
  \<comment> \<open>\<open>$cond: [{ $regexMatch: { input: "$location", regex: district, options: "i" } }, 10, 5]\<close>\<close>
  "location_score m loc = (if regexMatch m loc then 10 else 5)"

definition freshness_score :: "int \<Rightarrow> stamp \<Rightarrow> failure + rat" where
  \<comment> \<open>\<open>$subtract: [10, { $divide: [{ $subtract: [new Date(), "$created_at"] }, 86400000] }]\<close>\<close>
  "freshness_score now created =
     (case created of
        IsoString _ \<Rightarrow> Inl (StoreFailure ''cannot $subtract string from date'')
      | DateValue t \<Rightarrow> Inr (10 - of_int (now - t) / 86400000))"

definition add_scores ::
  "int \<Rightarrow> (string \<Rightarrow> bool) \<Rightarrow> ('a, 'z) pet_scheme \<Rightarrow> failure + ('a, 'z) pet_scheme" where
  "add_scores now m p =
     (case freshness_score now (created_at p) of
        Inl e \<Rightarrow> Inl e
      | Inr f \<Rightarrow>
          Inr (p\<lparr> locationScore := Some (location_score m (location p)),
                  freshnessScore := Some f \<rparr>))"

definition add_total :: "('a, 'z) pet_scheme \<Rightarrow> ('a, 'z) pet_scheme" where
  \<comment> \<open>\<open>totalScore: { $add: ["$locationScore", "$freshnessScore"] }\<close>\<close>
  "add_total p =
     p\<lparr> totalScore :=
          (case (locationScore p, freshnessScore p) of
             (Some a, Some b) \<Rightarrow> Some (a + b)
           | _ \<Rightarrow> None) \<rparr>"

text \<open>A stage that evaluates an expression on every document stops at the first error.\<close>

fun each_document :: "('a \<Rightarrow> failure + 'b) \<Rightarrow> 'a list \<Rightarrow> failure + 'b list" where
  "each_document f [] = Inr []"
| "each_document f (x # xs) =
     (case f x of
        Inl e \<Rightarrow> Inl e
      | Inr y \<Rightarrow> (case each_document f xs of Inl e \<Rightarrow> Inl e | Inr ys \<Rightarrow> Inr (y # ys)))"

text \<open>
  The sort order of the values the two \<open>$sort\<close> stages compare: strings by code
  unit, every string before every date, dates by time, a missing number before every
  number.
\<close>

fun string_le :: "string \<Rightarrow> string \<Rightarrow> bool" where
  "string_le [] t = True"
| "string_le (a # s) [] = False"
| "string_le (a # s) (b # t) =
     ((of_char a :: nat) < of_char b \<or> (a = b \<and> string_le s t))"

fun stamp_le :: "stamp \<Rightarrow> stamp \<Rightarrow> bool" where
  "stamp_le (IsoString s) (IsoString t) = string_le s t"
| "stamp_le (IsoString s) (DateValue t) = True"
| "stamp_le (DateValue s) (IsoString t) = False"
| "stamp_le (DateValue s) (DateValue t) = (s \<le> t)"

fun score_less :: "rat option \<Rightarrow> rat option \<Rightarrow> bool" where
  "score_less None None = False"
| "score_less None (Some b) = True"
| "score_less (Some a) None = False"
| "score_less (Some a) (Some b) = (a < b)"

definition before_basic :: "('a, 'z) pet_scheme \<Rightarrow> ('a, 'z) pet_scheme \<Rightarrow> bool" where
  \<comment> \<open>\<open>{ created_at: -1 }\<close>\<close>
  "before_basic a b = stamp_le (created_at b) (created_at a)"

definition before_advanced :: "('a, 'z) pet_scheme \<Rightarrow> ('a, 'z) pet_scheme \<Rightarrow> bool" where
  \<comment> \<open>\<open>{ totalScore: -1, created_at: -1 }\<close>\<close>
  "before_advanced a b =
     (score_less (totalScore b) (totalScore a) \<or>
      (totalScore a = totalScore b \<and> stamp_le (created_at b) (created_at a)))"

text \<open>
  \<open>$sort\<close>, as an insertion sort that keeps documents with equal keys in the order
  in which they arrive (the store promises no order among them).
\<close>

fun insert_by :: "('a \<Rightarrow> 'a \<Rightarrow> bool) \<Rightarrow> 'a \<Rightarrow> 'a list \<Rightarrow> 'a list" where
  "insert_by prec x [] = [x]"
| "insert_by prec x (y # ys) =
     (if prec x y then x # y # ys else y # insert_by prec x ys)"

fun sort_by :: "('a \<Rightarrow> 'a \<Rightarrow> bool) \<Rightarrow> 'a list \<Rightarrow> 'a list" where
  "sort_by prec [] = []"
| "sort_by prec (x # xs) = insert_by prec x (sort_by prec xs)"

text \<open>
  The two handlers. The result is the JSON array of the \<open>200\<close> response, or the
  failure that the \<open>catch\<close> block turns into the \<open>500\<close> response. \<open>pets\<close> and
  \<open>users\<close> are the documents of the two collections. \<open>parseInt(limit)\<close> is
  evaluated while the pipeline is built, so its \<open>TypeError\<close> comes before any
  answer of the store.
\<close>

definition getPetRecommendations ::
  "regex_engine \<Rightarrow> ('v option, 'z) pet_scheme list \<Rightarrow> 'v document list \<Rightarrow> rec_query
     \<Rightarrow> failure + ('v document option, 'z) pet_scheme list" where
  "getPetRecommendations rx pets users q =
     (if throws (r_limit q) then Inl (TypeError ''Cannot convert object to primitive value'')
      else
        (case district_regex rx (r_district q) of
           Inl e \<Rightarrow> Inl e
         | Inr m \<Rightarrow>
             (case limit_stage (r_limit q) of
                Inl e \<Rightarrow> Inl e
              | Inr n \<Rightarrow>
                  (let matched = filter (match_basic (categoryArray (r_categories q)) m) pets;
                       looked_up = map (lookup_users users) matched;
                       unwound = concat (map unwind_added_by looked_up);
                       projected = map project_basic unwound;
                       sorted = sort_by before_basic projected
                   in Inr (take n sorted)))))"

definition getAdvancedPetRecommendations ::
  "regex_engine \<Rightarrow> int \<Rightarrow> ('v option, 'z) pet_scheme list \<Rightarrow> 'v document list \<Rightarrow> rec_query
     \<Rightarrow> failure + ('v document option, 'z) pet_scheme list" where
  "getAdvancedPetRecommendations rx now pets users q =
     (if throws (r_limit q) then Inl (TypeError ''Cannot convert object to primitive value'')
      else
        (case district_regex rx (r_district q) of
           Inl e \<Rightarrow> Inl e
         | Inr m \<Rightarrow>
             (case limit_stage (r_limit q) of
                Inl e \<Rightarrow> Inl e
              | Inr n \<Rightarrow>
                  (let matched =
                         filter (match_advanced (categoryArray (r_categories q)) m) pets;
                       looked_up = map (lookup_users users) matched;
                       unwound = concat (map unwind_added_by looked_up)
                   in case each_document (add_scores now m) unwound of
                        Inl e \<Rightarrow> Inl e
                      | Inr scored \<Rightarrow>
                          (let totalled = map add_total scored;
                               sorted = sort_by before_advanced totalled
                           in Inr (map project_advanced (take n sorted)))))))"

text \<open>
  A regular-expression engine for patterns of letters, digits and blanks only, on which
  a match under option \<open>i\<close> is a substring match that ignores case. It rejects
  every other pattern; the concrete checks below use such patterns only.
\<close>

definition lower :: "char \<Rightarrow> char" where
  "lower c = (let n = (of_char c :: nat) in if 65 \<le> n \<and> n \<le> 90 then char_of (n + 32) else c)"

fun starts_with :: "string \<Rightarrow> string \<Rightarrow> bool" where
  "starts_with [] s = True"
| "starts_with (a # pat) [] = False"
| "starts_with (a # pat) (b # s) = (lower a = lower b \<and> starts_with pat s)"

fun has_match :: "string \<Rightarrow> string \<Rightarrow> bool" where
  "has_match pat [] = starts_with pat []"
| "has_match pat (b # s) = (starts_with pat (b # s) \<or> has_match pat s)"

definition plain_pattern :: "string \<Rightarrow> bool" where
  "plain_pattern pat = list_all (\<lambda>c. c = CHR '' '' \<or> digitValue c \<noteq> None) pat"

definition literal_rx :: regex_engine where
  "literal_rx pat = (if plain_pattern pat then Some (has_match pat) else None)"

text \<open>
  Two documents of the pipeline are the same listing when they agree on every field but
  \<open>added_by\<close> and the three score fields, which are the ones the stages rewrite.
\<close>

definition same_listing :: "('a, 'z) pet_scheme \<Rightarrow> ('b, 'z) pet_scheme \<Rightarrow> bool" where
  "same_listing a b =
     (category a = category b \<and> location a = location b \<and> adopted a = adopted b \<and>
      created_at a = created_at b \<and> pet.more a = pet.more b)"

text \<open>
  A document carries the scores of the advanced mode: 10 or 5 for the location,
  10 minus the age in days for the freshness, and their sum.
\<close>

definition scored_entry :: "int \<Rightarrow> (string \<Rightarrow> bool) \<Rightarrow> ('a, 'z) pet_scheme \<Rightarrow> bool" where
  "scored_entry now m e =
     (case created_at e of
        IsoString _ \<Rightarrow> False
      | DateValue t \<Rightarrow>
          locationScore e = Some (if regexMatch m (location e) then 10 else 5) \<and>
          freshnessScore e = Some (10 - of_int (now - t) / 86400000) \<and>
          totalScore e =
            Some ((if regexMatch m (location e) then 10 else 5)
                  + (10 - of_int (now - t) / 86400000)))"


section \<open>Concrete requests and collections\<close>

definition page_request :: "string \<Rightarrow> string \<Rightarrow> page_query" where
  "page_request l c = \<lparr> q_limit = QString l, q_cursor = QString c \<rparr>"

definition ten_docs :: "nat store" where
  "ten_docs = \<lparr> docs = [1, 2, 3, 4, 5, 6, 7, 8, 9, 10], firstBatch = 101 \<rparr>"

definition listing :: "string \<Rightarrow> string option \<Rightarrow> stamp \<Rightarrow> 'a \<Rightarrow> 'a pet" where
  "listing cat loc created lister =
     \<lparr> category = cat, location = loc, adopted = False, created_at = created,
       added_by = lister,
       locationScore = None, freshnessScore = None, totalScore = None \<rparr>"

definition ann :: "string document" where
  "ann =
     [(''_id'', ''u1''), (''name'', ''Ann''), (''email'', ''ann@example.org''),
      (''password'', ''secret'')]"

definition some_users :: "string document list" where
  "some_users = ann # []"

definition cats_in_dhaka :: rec_query where
  "cats_in_dhaka =
     \<lparr> r_categories = QString ''cat'', r_district = QString ''dhaka'', r_limit = QUndefined \<rparr>"

definition located :: "string option pet" where
  "located = listing ''cat'' (Some ''Dhaka North'') (DateValue 1000) (Some ''u1'')"

definition unlocated :: "string option pet" where
  "unlocated = listing ''cat'' None (DateValue 86401000) (Some ''u2'')"

text \<open>The listing that \<open>POST /add-pet\<close> stores: its \<open>created_at\<close> is a string.\<close>

definition from_add_pet :: "string option pet" where
  "from_add_pet =
     listing ''cat'' (Some ''Dhaka'') (IsoString ''2025-01-01T00:00:00.000Z'') None"


section \<open>Properties of the paginator\<close>

subsection \<open>What a returned page and a propagated failure consist of\<close>

lemma paginate_Inr:
  assumes "paginateCollection coll q flt projection = Inr r"
  obtains n its where
    "countDocuments coll flt = Inr n"
    "find_skip_limit coll flt projection
       (adjustedCursor (int n) (pageSize q) (cursor q)) (pageSize q) = Inr its"
    "items r = its" "total_count r = int n"
    "nextId r = (if adjustedCursor (int n) (pageSize q) (cursor q) + pageSize q < int n
                 then Some (adjustedCursor (int n) (pageSize q) (cursor q) + pageSize q)
                 else None)"
    "previousId r = (if adjustedCursor (int n) (pageSize q) (cursor q) - pageSize q \<ge> 0
                 then Some (adjustedCursor (int n) (pageSize q) (cursor q) - pageSize q)
                 else None)"
proof -
  have nt: "\<not> (throws (q_limit q) \<or> throws (q_cursor q))"
    using assms
    by (cases "throws (q_limit q) \<or> throws (q_cursor q)")
       (simp_all add: paginateCollection_def)
  with assms that show thesis
    by (auto simp: paginateCollection_def Let_def split: sum.splits)
qed

lemma paginate_not_thrown:
  assumes "paginateCollection coll q flt projection = Inr r"
  shows "\<not> throws (q_limit q)" and "\<not> throws (q_cursor q)"
  using assms
  by (cases "throws (q_limit q) \<or> throws (q_cursor q)";
      simp add: paginateCollection_def)+

lemma adjustedCursor_lower: "0 \<le> cur \<Longrightarrow> 0 \<le> adjustedCursor tot ps cur"
  by (simp add: adjustedCursor_def)

lemma adjustedCursor_upper: "0 \<le> tot \<Longrightarrow> 0 \<le> ps \<Longrightarrow> adjustedCursor tot ps cur \<le> tot"
  by (simp add: adjustedCursor_def)

lemma adjustedCursor_below: "0 < tot \<Longrightarrow> 0 < ps \<Longrightarrow> adjustedCursor tot ps cur < tot"
  by (simp add: adjustedCursor_def)

lemma length_mongo_find:
  assumes "mongo_find s flt projection sk lmt = Inr its" and "0 < lmt"
  shows "int (length its) = max 0 (min lmt (int (length (filter flt (docs s))) - sk))"
  using assms
  by (auto simp: mongo_find_def Let_def split: if_splits option.splits)

subsection \<open>The effective cursor\<close>

text \<open>
  Claim C1 says that the effective cursor always lies between 0 and the filtered count
  \<open>total\<close>. It does not: with ten matching documents, \<open>cursor=-5\<close> is below the
  count and is used as it is, and \<open>limit=-3&cursor=20\<close> is clamped to
  \<open>max (10 + 3) 0 = 13\<close>.
\<close>

theorem effective_cursor_out_of_range:
  "\<not> (0 \<le> adjustedCursor 10 (pageSize (page_request ''6'' ''-5''))
              (cursor (page_request ''6'' ''-5'')))
   \<and> \<not> (adjustedCursor 10 (pageSize (page_request ''-3'' ''20''))
           (cursor (page_request ''-3'' ''20'')) \<le> 10)"
  by code_simp

text \<open>
  Claim C1, amended: for every filtered count \<open>n\<close> and every request whose cursor is
  not negative and whose page size is positive (both after parsing and defaulting), the
  effective cursor satisfies \<open>0 \<le> effectiveCursor \<le> total\<close>.
\<close>

theorem effective_cursor_in_range:
  assumes "0 \<le> cursor q" and "0 < pageSize q"
  shows "0 \<le> adjustedCursor (int n) (pageSize q) (cursor q) \<and>
         adjustedCursor (int n) (pageSize q) (cursor q) \<le> int n"
  using assms by (simp add: adjustedCursor_lower adjustedCursor_upper)

theorem effective_cursor_in_range_witness:
  "0 \<le> cursor (page_request ''6'' ''20'') \<and> 0 < pageSize (page_request ''6'' ''20'') \<and>
   0 \<le> adjustedCursor (int 10) (pageSize (page_request ''6'' ''20''))
         (cursor (page_request ''6'' ''20'')) \<and>
   adjustedCursor (int 10) (pageSize (page_request ''6'' ''20''))
     (cursor (page_request ''6'' ''20'')) \<le> int 10"
proof -
  have c: "0 \<le> cursor (page_request ''6'' ''20'')" by code_simp
  have p: "0 < pageSize (page_request ''6'' ''20'')" by code_simp
  show ?thesis using c p effective_cursor_in_range [OF c p, of 10] by simp
qed

text \<open>
  Claim C2: when the requested cursor is at or beyond \<open>total\<close>, \<open>paginateCollection\<close>
  uses \<open>max (total - requestedLimit) 0\<close> as the effective cursor, and when it is below
  \<open>total\<close> it uses the requested cursor unmodified: the items of every returned page
  are what the store's \<open>find\<close> returns for that \<open>skip\<close> and the requested limit.
\<close>

theorem cursor_clamping:
  assumes "paginateCollection coll q flt projection = Inr r"
  shows "(total_count r \<le> cursor q \<longrightarrow>
            find_skip_limit coll flt projection
              (max (total_count r - pageSize q) 0) (pageSize q) = Inr (items r)) \<and>
         (cursor q < total_count r \<longrightarrow>
            find_skip_limit coll flt projection (cursor q) (pageSize q) = Inr (items r))"
proof -
  from assms obtain n where
    f: "find_skip_limit coll flt projection
          (adjustedCursor (int n) (pageSize q) (cursor q)) (pageSize q) = Inr (items r)"
    and t: "total_count r = int n"
    by (elim paginate_Inr) simp
  show ?thesis
  proof (intro conjI impI)
    assume "total_count r \<le> cursor q"
    then have "adjustedCursor (int n) (pageSize q) (cursor q) = max (total_count r - pageSize q) 0"
      by (simp add: adjustedCursor_def t)
    with f show "find_skip_limit coll flt projection
              (max (total_count r - pageSize q) 0) (pageSize q) = Inr (items r)"
      by simp
  next
    assume "cursor q < total_count r"
    then have "adjustedCursor (int n) (pageSize q) (cursor q) = cursor q"
      by (simp add: adjustedCursor_def t)
    with f show "find_skip_limit coll flt projection (cursor q) (pageSize q) = Inr (items r)"
      by simp
  qed
qed

theorem cursor_clamping_witness:
  "paginateCollection (mongo ten_docs) (page_request ''6'' ''20'') ((<) 0) None =
     Inr \<lparr> items = [5, 6, 7, 8, 9, 10], nextId = None, previousId = None,
           total_count = 10 \<rparr> \<and>
   10 \<le> cursor (page_request ''6'' ''20'') \<and>
   find_skip_limit (mongo ten_docs) ((<) 0) None 4 6 = Inr [5, 6, 7, 8, 9, 10] \<and>
   find_skip_limit (mongo ten_docs) ((<) 0) None 20 6 = Inr [] \<and>
   paginateCollection (mongo ten_docs) (page_request ''6'' ''3'') ((<) 0) None =
     Inr \<lparr> items = [4, 5, 6, 7, 8, 9], nextId = Some 9, previousId = None,
           total_count = 10 \<rparr> \<and>
   cursor (page_request ''6'' ''3'') < 10 \<and>
   find_skip_limit (mongo ten_docs) ((<) 0) None 3 6 = Inr [4, 5, 6, 7, 8, 9]"
proof -
  have a: "paginateCollection (mongo ten_docs) (page_request ''6'' ''20'') ((<) 0) None =
     Inr \<lparr> items = [5, 6, 7, 8, 9, 10], nextId = None, previousId = None,
           total_count = 10 \<rparr>"
    by code_simp
  have b: "paginateCollection (mongo ten_docs) (page_request ''6'' ''3'') ((<) 0) None =
     Inr \<lparr> items = [4, 5, 6, 7, 8, 9], nextId = Some 9, previousId = None,
           total_count = 10 \<rparr>"
    by code_simp
  have ca: "cursor (page_request ''6'' ''20'') = 20" by code_simp
  have cb: "cursor (page_request ''6'' ''3'') = 3" by code_simp
  have pa: "pageSize (page_request ''6'' ''20'') = 6" by code_simp
  have pb: "pageSize (page_request ''6'' ''3'') = 6" by code_simp
  have raw: "find_skip_limit (mongo ten_docs) ((<) 0) None 20 6 = Inr []" by code_simp
  from cursor_clamping [OF a]
  have "find_skip_limit (mongo ten_docs) ((<) 0) None 4 6 = Inr [5, 6, 7, 8, 9, 10]"
    by (simp add: ca pa)
  moreover from cursor_clamping [OF b]
  have "find_skip_limit (mongo ten_docs) ((<) 0) None 3 6 = Inr [4, 5, 6, 7, 8, 9]"
    by (simp add: cb pb)
  ultimately show ?thesis using a b raw by (simp add: ca cb)
qed

subsection \<open>The page\<close>

text \<open>
  Claim C3 says that every returned page has \<open>min limit (total - effectiveCursor)\<close>
  items when the effective cursor is below \<open>total\<close>. With \<open>limit=-3&cursor=0\<close> on
  ten matching documents the page size is \<open>-3\<close>, the store returns three documents,
  and the claimed length would be \<open>min (-3) 10 = -3\<close>.
\<close>

theorem negative_limit_page_length:
  "paginateCollection (mongo ten_docs) (page_request ''-3'' ''0'') ((<) 0) None =
     Inr \<lparr> items = [1, 2, 3], nextId = Some (- 3), previousId = Some 3, total_count = 10 \<rparr>
   \<and> adjustedCursor 10 (pageSize (page_request ''-3'' ''0''))
       (cursor (page_request ''-3'' ''0'')) < 10
   \<and> int (length [1, 2, 3 :: nat]) \<noteq>
       min (pageSize (page_request ''-3'' ''0''))
         (10 - adjustedCursor 10 (pageSize (page_request ''-3'' ''0''))
                 (cursor (page_request ''-3'' ''0'')))"
  by code_simp

text \<open>
  Claim C3, amended: for every collection, filter, cursor and limit whose page size
  (after parsing and defaulting) is positive, a page returned by
  \<open>paginateCollection\<close> has \<open>min limit (total - effectiveCursor)\<close> items when the
  effective cursor is below \<open>total\<close>, and none otherwise.
\<close>

theorem page_length:
  assumes "0 < pageSize q"
    and "paginateCollection (mongo s) q flt projection = Inr r"
  shows "int (length (items r)) =
           (if adjustedCursor (total_count r) (pageSize q) (cursor q) < total_count r
            then min (pageSize q)
                   (total_count r - adjustedCursor (total_count r) (pageSize q) (cursor q))
            else 0)"
proof -
  from assms(2) obtain n its where
    c: "countDocuments (mongo s) flt = Inr n" and
    f: "find_skip_limit (mongo s) flt projection
       (adjustedCursor (int n) (pageSize q) (cursor q)) (pageSize q) = Inr its" and
    i: "items r = its" and t: "total_count r = int n"
    by (rule paginate_Inr)
  from c have n: "n = length (filter flt (docs s))"
    by (simp add: mongo_def mongo_count_def)
  from f have f': "mongo_find s flt projection
       (adjustedCursor (int n) (pageSize q) (cursor q)) (pageSize q) = Inr its"
    by (simp add: mongo_def)
  from length_mongo_find [OF f' assms(1)] assms(1) show ?thesis
    unfolding i t n by auto
qed

theorem page_length_witness:
  "0 < pageSize (page_request ''6'' ''20'') \<and>
   paginateCollection (mongo ten_docs) (page_request ''6'' ''20'') ((<) 0) None =
     Inr \<lparr> items = [5, 6, 7, 8, 9, 10], nextId = None, previousId = None,
           total_count = 10 \<rparr> \<and>
   adjustedCursor 10 (pageSize (page_request ''6'' ''20''))
     (cursor (page_request ''6'' ''20'')) = 4 \<and>
   int (length [5, 6, 7, 8, 9, 10 :: nat]) = min 6 (10 - 4)"
proof -
  have p: "0 < pageSize (page_request ''6'' ''20'')" by code_simp
  have r: "paginateCollection (mongo ten_docs) (page_request ''6'' ''20'') ((<) 0) None =
     Inr \<lparr> items = [5, 6, 7, 8, 9, 10], nextId = None, previousId = None,
           total_count = 10 \<rparr>"
    by code_simp
  have a: "adjustedCursor 10 (pageSize (page_request ''6'' ''20''))
     (cursor (page_request ''6'' ''20'')) = 4"
    by code_simp
  have ps: "pageSize (page_request ''6'' ''20'') = 6" by code_simp
  from page_length [OF p r] have "int (length [5, 6, 7, 8, 9, 10 :: nat]) = min 6 (10 - 4)"
    by (simp add: a ps)
  with p r a show ?thesis by simp
qed

text \<open>
  Claim C4: in every result of \<open>paginateCollection\<close>, \<open>nextId\<close> is present exactly
  when \<open>effectiveCursor + limit < total\<close> and is then that sum, and \<open>previousId\<close> is
  present exactly when \<open>effectiveCursor - limit \<ge> 0\<close> and is then that difference;
  otherwise each is absent.
\<close>

theorem next_previous_ids:
  assumes "paginateCollection coll q flt projection = Inr r"
  shows "nextId r =
           (if adjustedCursor (total_count r) (pageSize q) (cursor q) + pageSize q
                 < total_count r
            then Some (adjustedCursor (total_count r) (pageSize q) (cursor q) + pageSize q)
            else None) \<and>
         previousId r =
           (if 0 \<le> adjustedCursor (total_count r) (pageSize q) (cursor q) - pageSize q
            then Some (adjustedCursor (total_count r) (pageSize q) (cursor q) - pageSize q)
            else None)"
  using assms by (elim paginate_Inr) simp

theorem next_previous_ids_witness:
  "paginateCollection (mongo ten_docs) (page_request ''6'' ''0'') ((<) 0) None =
     Inr \<lparr> items = [1, 2, 3, 4, 5, 6], nextId = Some 6, previousId = None,
           total_count = 10 \<rparr>
   \<and> paginateCollection (mongo ten_docs) (page_request ''6'' ''6'') ((<) 0) None =
     Inr \<lparr> items = [7, 8, 9, 10], nextId = None, previousId = Some 0, total_count = 10 \<rparr>"
proof -
  have a: "paginateCollection (mongo ten_docs) (page_request ''6'' ''0'') ((<) 0) None =
     Inr \<lparr> items = [1, 2, 3, 4, 5, 6], nextId = Some 6, previousId = None,
           total_count = 10 \<rparr>"
    by code_simp
  have b: "paginateCollection (mongo ten_docs) (page_request ''6'' ''6'') ((<) 0) None =
     Inr \<lparr> items = [7, 8, 9, 10], nextId = None, previousId = Some 0, total_count = 10 \<rparr>"
    by code_simp
  show ?thesis using a b next_previous_ids [OF a] next_previous_ids [OF b] by simp
qed

text \<open>
  Claim C9: when at least one document matches the filter and the request has a parsed
  cursor that is not negative and a parsed limit of at least 1 (as parsed or as
  defaulted), \<open>paginateCollection\<close> returns a page that is not empty. Its items are
  the \<open>limit\<close> matching documents from the effective cursor on, and for a cursor at or
  beyond \<open>total\<close> they are the last \<open>limit\<close> matching documents, or all of them
  when there are fewer.
\<close>

theorem page_not_empty:
  assumes "1 \<le> length (filter flt (docs s))" and "0 \<le> cursor q" and "1 \<le> pageSize q"
    and "\<not> throws (q_limit q)" and "\<not> throws (q_cursor q)"
  shows "\<exists>r. paginateCollection (mongo s) q flt projection = Inr r \<and> items r \<noteq> [] \<and>
           items r =
             (case projection of
                None \<Rightarrow> take (nat (pageSize q))
                  (drop (nat (adjustedCursor (int (length (filter flt (docs s))))
                                (pageSize q) (cursor q)))
                     (filter flt (docs s)))
              | Some p \<Rightarrow> map p (take (nat (pageSize q))
                  (drop (nat (adjustedCursor (int (length (filter flt (docs s))))
                                (pageSize q) (cursor q)))
                     (filter flt (docs s))))) \<and>
           (int (length (filter flt (docs s))) \<le> cursor q \<longrightarrow>
              items r =
                (case projection of
                   None \<Rightarrow> drop (length (filter flt (docs s)) - nat (pageSize q))
                             (filter flt (docs s))
                 | Some p \<Rightarrow> map p (drop (length (filter flt (docs s)) - nat (pageSize q))
                                      (filter flt (docs s)))))"
proof -
  let ?xs = "filter flt (docs s)"
  let ?n = "length ?xs"
  let ?a = "adjustedCursor (int ?n) (pageSize q) (cursor q)"
  let ?page = "take (nat (pageSize q)) (drop (nat ?a) ?xs)"
  let ?r = "\<lparr> items = (case projection of None \<Rightarrow> ?page | Some p \<Rightarrow> map p ?page),
              nextId = (if ?a + pageSize q < int ?n then Some (?a + pageSize q) else None),
              previousId = (if ?a - pageSize q \<ge> 0 then Some (?a - pageSize q) else None),
              total_count = int ?n \<rparr>"
  have lo: "0 \<le> ?a" using assms(2) by (rule adjustedCursor_lower)
  have hi: "?a < int ?n" using assms(1,3) by (intro adjustedCursor_below) auto
  have "drop (nat ?a) ?xs \<noteq> []" using lo hi by simp
  moreover have "0 < nat (pageSize q)" using assms(3) by simp
  ultimately have ne: "?page \<noteq> []"
    by (cases "nat (pageSize q)"; cases "drop (nat ?a) ?xs") auto
  have ret: "paginateCollection (mongo s) q flt projection = Inr ?r"
    using lo assms(3-5)
    by (simp add: paginateCollection_def mongo_def mongo_count_def mongo_find_def Let_def)
  have last: "?page = drop (?n - nat (pageSize q)) ?xs" if beyond: "int ?n \<le> cursor q"
  proof -
    from beyond have a: "?a = max (int ?n - pageSize q) 0"
      by (simp add: adjustedCursor_def)
    with assms(3) have na: "nat ?a = ?n - nat (pageSize q)" by auto
    have "length (drop (nat ?a) ?xs) \<le> nat (pageSize q)"
      unfolding na using assms(3) by auto
    then have "?page = drop (nat ?a) ?xs" by (rule take_all)
    with na show ?thesis by simp
  qed
  have "items ?r \<noteq> []" using ne by (cases projection) simp_all
  moreover have "int ?n \<le> cursor q \<longrightarrow>
      items ?r = (case projection of
                   None \<Rightarrow> drop (?n - nat (pageSize q)) ?xs
                 | Some p \<Rightarrow> map p (drop (?n - nat (pageSize q)) ?xs))"
    using last by (cases projection) simp_all
  ultimately show ?thesis using ret by (intro exI [of _ ?r]) simp
qed

theorem page_not_empty_witness:
  "1 \<le> length (filter ((<) 0) (docs ten_docs)) \<and>
   0 \<le> cursor (page_request ''6'' ''20'') \<and> 1 \<le> pageSize (page_request ''6'' ''20'') \<and>
   \<not> throws (q_limit (page_request ''6'' ''20'')) \<and>
   \<not> throws (q_cursor (page_request ''6'' ''20'')) \<and>
   int (length (filter ((<) 0) (docs ten_docs))) \<le> cursor (page_request ''6'' ''20'') \<and>
   paginateCollection (mongo ten_docs) (page_request ''6'' ''20'') ((<) 0) None =
     Inr \<lparr> items = [5, 6, 7, 8, 9, 10], nextId = None, previousId = None,
           total_count = 10 \<rparr> \<and>
   drop (length (filter ((<) 0) (docs ten_docs)) - nat (pageSize (page_request ''6'' ''20'')))
     (filter ((<) 0) (docs ten_docs)) = [5, 6, 7, 8, 9, 10]"
proof -
  have n: "1 \<le> length (filter ((<) 0) (docs ten_docs))" by code_simp
  have c: "0 \<le> cursor (page_request ''6'' ''20'')" by code_simp
  have p: "1 \<le> pageSize (page_request ''6'' ''20'')" by code_simp
  have tl: "\<not> throws (q_limit (page_request ''6'' ''20''))" by code_simp
  have tc: "\<not> throws (q_cursor (page_request ''6'' ''20''))" by code_simp
  have b: "int (length (filter ((<) 0) (docs ten_docs))) \<le> cursor (page_request ''6'' ''20'')"
    by code_simp
  have r: "paginateCollection (mongo ten_docs) (page_request ''6'' ''20'') ((<) 0) None =
     Inr \<lparr> items = [5, 6, 7, 8, 9, 10], nextId = None, previousId = None,
           total_count = 10 \<rparr>"
    by code_simp
  from page_not_empty [OF n c p tl tc, of None] b r
  have "drop (length (filter ((<) 0) (docs ten_docs))
                - nat (pageSize (page_request ''6'' ''20'')))
          (filter ((<) 0) (docs ten_docs)) = [5, 6, 7, 8, 9, 10]"
    by auto
  with n c p tl tc b r show ?thesis by simp
qed

subsection \<open>Malformed paging parameters\<close>





section \<open>Properties of the recommendation ranker\<close>

subsection \<open>Sorting, projection and the stages of a successful run\<close>

lemma set_insert_by: "set (insert_by prec x xs) = insert x (set xs)"
  by (induction xs) auto

lemma set_sort_by: "set (sort_by prec xs) = set xs"
  by (induction xs) (auto simp: set_insert_by)



lemma strip_lister_keys:
  "''password'' \<notin> fst ` set (strip_lister u) \<and> ''email'' \<notin> fst ` set (strip_lister u)"
  by (auto simp: strip_lister_def)

lemma project_basic_lister:
  assumes "added_by (project_basic p) = Some u"
  shows "''password'' \<notin> fst ` set u \<and> ''email'' \<notin> fst ` set u"
proof -
  from assms obtain u0 where "u = strip_lister u0"
    by (auto simp: project_basic_def)
  then show ?thesis by (simp only: strip_lister_keys simp_thms)
qed

lemma project_advanced_lister:
  assumes "added_by (project_advanced p) = Some u"
  shows "''password'' \<notin> fst ` set u \<and> ''email'' \<notin> fst ` set u"
proof -
  from assms obtain u0 where "u = strip_lister u0"
    by (auto simp: project_advanced_def)
  then show ?thesis by (simp only: strip_lister_keys simp_thms)
qed

lemma project_advanced_scores:
  "locationScore (project_advanced p) = None \<and> freshnessScore (project_advanced p) = None
   \<and> totalScore (project_advanced p) = None"
  by (simp add: project_advanced_def)

lemma basic_Inr:
  assumes "getPetRecommendations rx pets users q = Inr out"
  obtains m n where "district_regex rx (r_district q) = Inr m"
    "limit_stage (r_limit q) = Inr n"
    "out = take n (sort_by before_basic (map project_basic (concat (map unwind_added_by
             (map (lookup_users users)
                (filter (match_basic (categoryArray (r_categories q)) m) pets))))))"
  using assms
  by (auto simp: getPetRecommendations_def Let_def split: sum.splits if_splits)

lemma advanced_Inr:
  assumes "getAdvancedPetRecommendations rx now pets users q = Inr out"
  obtains m n scored where "district_regex rx (r_district q) = Inr m"
    "limit_stage (r_limit q) = Inr n"
    "each_document (add_scores now m) (concat (map unwind_added_by
             (map (lookup_users users)
                (filter (match_advanced (categoryArray (r_categories q)) m) pets)))) = Inr scored"
    "out = map project_advanced (take n (sort_by before_advanced (map add_total scored)))"
  using assms
  by (auto simp: getAdvancedPetRecommendations_def Let_def split: sum.splits if_splits)

lemma each_document_member:
  "each_document f xs = Inr ys \<Longrightarrow> x \<in> set xs \<Longrightarrow> \<exists>y \<in> set ys. f x = Inr y"
  by (induction xs arbitrary: ys) (auto split: sum.splits)

lemma each_document_source:
  "each_document f xs = Inr ys \<Longrightarrow> y \<in> set ys \<Longrightarrow> \<exists>x \<in> set xs. f x = Inr y"
  by (induction xs arbitrary: ys) (auto split: sum.splits)

lemma unwind_same:
  "\<exists>x \<in> set (unwind_added_by (lookup_users users p)). same_listing p x"
  by (cases "filter (\<lambda>u. map_of u ''_id'' = added_by p) users")
     (auto simp: unwind_added_by_def lookup_users_def with_added_by_def same_listing_def)









subsection \<open>Categories\<close>


subsection \<open>Stripped fields\<close>

text \<open>
  Claim C7: in every entry that either recommendation mode returns, the embedded
  \<open>added_by\<close> document has no \<open>password\<close> and no \<open>email\<close> key, and in the
  advanced mode the entry has no \<open>locationScore\<close>, \<open>freshnessScore\<close> or
  \<open>totalScore\<close> field.
\<close>

theorem lister_and_scores_stripped:
  "(getPetRecommendations rx pets users q = Inr out \<longrightarrow>
      (\<forall>e \<in> set out. \<forall>u. added_by e = Some u \<longrightarrow>
         ''password'' \<notin> fst ` set u \<and> ''email'' \<notin> fst ` set u)) \<and>
   (getAdvancedPetRecommendations rx now pets users q = Inr out' \<longrightarrow>
      (\<forall>e \<in> set out'.
         (\<forall>u. added_by e = Some u \<longrightarrow>
            ''password'' \<notin> fst ` set u \<and> ''email'' \<notin> fst ` set u) \<and>
         locationScore e = None \<and> freshnessScore e = None \<and> totalScore e = None))"
proof (intro conjI impI ballI allI)
  fix e u
  assume r: "getPetRecommendations rx pets users q = Inr out"
    and e: "e \<in> set out" and u: "added_by e = Some u"
  from r obtain n xs where "out = take n (sort_by before_basic (map project_basic xs))"
    by (elim basic_Inr)
  with e have "e \<in> set (map project_basic xs)"
    using set_sort_by in_set_takeD by metis
  then obtain p where "e = project_basic p" by auto
  with u show "''password'' \<notin> fst ` set u" "''email'' \<notin> fst ` set u"
    using project_basic_lister by blast+
next
  fix e
  assume r: "getAdvancedPetRecommendations rx now pets users q = Inr out'"
    and e: "e \<in> set out'"
  from r obtain xs where "out' = map project_advanced xs"
    by (elim advanced_Inr)
  with e obtain p where p: "e = project_advanced p" by auto
  show "locationScore e = None" "freshnessScore e = None" "totalScore e = None"
    unfolding p by (simp_all add: project_advanced_scores)
  fix u
  assume "added_by e = Some u"
  with p show "''password'' \<notin> fst ` set u" "''email'' \<notin> fst ` set u"
    using project_advanced_lister by blast+
qed

theorem lister_and_scores_stripped_witness:
  "getPetRecommendations literal_rx [unlocated, located] some_users cats_in_dhaka =
     Inr [listing ''cat'' (Some ''Dhaka North'') (DateValue 1000)
            (Some [(''_id'', ''u1''), (''name'', ''Ann'')])] \<and>
   getAdvancedPetRecommendations literal_rx 1296001000 [unlocated, located] some_users
       cats_in_dhaka =
     Inr [listing ''cat'' (Some ''Dhaka North'') (DateValue 1000)
            (Some [(''_id'', ''u1''), (''name'', ''Ann'')]),
          listing ''cat'' None (DateValue 86401000) None] \<and>
   ''password'' \<notin> fst ` set [(''_id'', ''u1''), (''name'', ''Ann'')] \<and>
   ''email'' \<notin> fst ` set [(''_id'', ''u1''), (''name'', ''Ann'')]"
proof -
  let ?a = "listing ''cat'' (Some ''Dhaka North'') (DateValue 1000)
              (Some [(''_id'', ''u1''), (''name'', ''Ann'')])"
  let ?b = "listing ''cat'' None (DateValue 86401000) (None :: string document option)"
  have b: "getPetRecommendations literal_rx [unlocated, located] some_users cats_in_dhaka =
             Inr [?a]"
    by code_simp
  have a: "getAdvancedPetRecommendations literal_rx 1296001000 [unlocated, located]
             some_users cats_in_dhaka = Inr [?a, ?b]"
    by code_simp
  have l: "added_by ?a = Some [(''_id'', ''u1''), (''name'', ''Ann'')]"
    by (simp add: listing_def)
  note s = lister_and_scores_stripped [where rx = literal_rx
      and pets = "[unlocated, located]" and users = some_users and q = cats_in_dhaka
      and out = "[?a]" and now = 1296001000 and out' = "[?a, ?b]"]
  from s b l have "''password'' \<notin> fst ` set [(''_id'', ''u1''), (''name'', ''Ann'')] \<and>
      ''email'' \<notin> fst ` set [(''_id'', ''u1''), (''name'', ''Ann'')]"
    by auto
  with a b show ?thesis by simp
qed

subsection \<open>Listings without a location\<close>



subsection \<open>Scores and ranking\<close>

text \<open>
  Claim C5 says that the advanced mode scores every candidate, with
  \<open>freshnessScore = 10 - (now - created_at) / 86400000\<close>, and returns the candidates
  ordered by total score. On the listing that \<open>POST /add-pet\<close> stores, whose
  \<open>created_at\<close> is an ISO string, the store rejects the subtraction, no candidate is
  scored, and the handler answers with the failure.
\<close>

theorem advanced_fails_on_add_pet_listing:
  "getAdvancedPetRecommendations literal_rx 1735776000000 [from_add_pet] some_users
     cats_in_dhaka = Inl (StoreFailure ''cannot $subtract string from date'')"
  by code_simp

text \<open>The same holds whenever a listing with a string \<open>created_at\<close> passes the match stage.\<close>

lemma advanced_fails_on_string_stamp:
  assumes "p \<in> set pets" and "created_at p = IsoString s"
    and "district_regex rx (r_district q) = Inr m"
    and "match_advanced (categoryArray (r_categories q)) m p"
  shows "\<exists>e. getAdvancedPetRecommendations rx now pets users q = Inl e"
proof (cases "getAdvancedPetRecommendations rx now pets users q")
  case (Inl e)
  then show ?thesis by blast
next
  case (Inr out)
  then obtain m' scored where
    "district_regex rx (r_district q) = Inr m'"
    and sc: "each_document (add_scores now m') (concat (map unwind_added_by
             (map (lookup_users users)
                (filter (match_advanced (categoryArray (r_categories q)) m') pets)))) = Inr scored"
    by (elim advanced_Inr)
  with assms(3) have m': "m' = m" by simp
  from assms(1,4) obtain x where x: "x \<in> set (concat (map unwind_added_by
             (map (lookup_users users)
                (filter (match_advanced (categoryArray (r_categories q)) m) pets))))"
     "same_listing p x"
    using unwind_same [of users p] by auto
  from each_document_member [OF sc [unfolded m'] x(1)] obtain y where
    "add_scores now m x = Inr y" by blast
  moreover from x(2) assms(2) have "created_at x = IsoString s"
    by (simp add: same_listing_def)
  ultimately show ?thesis by (simp add: add_scores_def freshness_score_def)
qed

text \<open>
  When the aggregation succeeds, which needs every candidate's \<open>created_at\<close> to be a
  date, the entries are the projections of documents that carry the three scores and are
  ordered by total score and then by \<open>created_at\<close>, both descending, and there are at
  most \<open>limit\<close> of them.
\<close>

lemma string_le_total: "string_le s t \<or> string_le t s"
  by (induction s t rule: string_le.induct) auto

lemma string_le_trans: "string_le s t \<Longrightarrow> string_le t u \<Longrightarrow> string_le s u"
proof (induction s t arbitrary: u rule: string_le.induct)
  case (1 t)
  then show ?case by simp
next
  case (2 a s)
  then show ?case by simp
next
  case (3 a s b t)
  then show ?case by (cases u) auto
qed

lemma stamp_le_total: "stamp_le a b \<or> stamp_le b a"
  using string_le_total by (cases a; cases b) auto

lemma stamp_le_trans: "stamp_le a b \<Longrightarrow> stamp_le b c \<Longrightarrow> stamp_le a c"
  using string_le_trans by (cases a; cases b; cases c) auto

lemma score_less_cases: "score_less a b \<or> a = b \<or> score_less b a"
  by (cases a; cases b) auto

lemma score_less_trans: "score_less a b \<Longrightarrow> score_less b c \<Longrightarrow> score_less a c"
  by (cases a; cases b; cases c) auto

lemma before_advanced_total: "before_advanced a b \<or> before_advanced b a"
  using score_less_cases [of "totalScore a" "totalScore b"]
    stamp_le_total [of "created_at a" "created_at b"]
  by (auto simp: before_advanced_def)

lemma before_advanced_trans:
  "before_advanced a b \<Longrightarrow> before_advanced b c \<Longrightarrow> before_advanced a c"
proof -
  assume ab: "before_advanced a b" and bc: "before_advanced b c"
  consider (lt) "score_less (totalScore b) (totalScore a)"
    | (eq) "totalScore a = totalScore b" "stamp_le (created_at b) (created_at a)"
    using ab by (auto simp: before_advanced_def)
  then show ?thesis
  proof cases
    case lt
    from bc show ?thesis
      unfolding before_advanced_def
      using lt score_less_trans [of "totalScore c" "totalScore b" "totalScore a"] by auto
  next
    case eq
    from bc show ?thesis
      unfolding before_advanced_def
      using eq stamp_le_trans [of "created_at c" "created_at b" "created_at a"] by auto
  qed
qed

lemma sorted_insert_by:
  assumes total: "\<And>a b. prec a b \<or> prec b a"
    and trans: "\<And>a b c. prec a b \<Longrightarrow> prec b c \<Longrightarrow> prec a c"
  shows "sorted_wrt prec xs \<Longrightarrow> sorted_wrt prec (insert_by prec x xs)"
proof (induction xs)
  case Nil
  then show ?case by simp
next
  case (Cons y ys)
  show ?case
  proof (cases "prec x y")
    case True
    with Cons.prems show ?thesis using trans by auto
  next
    case False
    with total have "prec y x" by blast
    with Cons False show ?thesis by (auto simp: set_insert_by)
  qed
qed

lemma sorted_sort_by:
  assumes "\<And>a b. prec a b \<or> prec b a"
    and "\<And>a b c. prec a b \<Longrightarrow> prec b c \<Longrightarrow> prec a c"
  shows "sorted_wrt prec (sort_by prec xs)"
  by (induction xs) (auto intro: sorted_insert_by [OF assms])

lemma sorted_wrt_take: "sorted_wrt P xs \<Longrightarrow> sorted_wrt P (take n xs)"
  by (metis append_take_drop_id sorted_wrt_append)

lemma sorted_advanced: "sorted_wrt before_advanced (take n (sort_by before_advanced xs))"
proof (rule sorted_wrt_take, rule sorted_sort_by)
  show "before_advanced a b \<or> before_advanced b a" for a b :: "('a, 'b) pet_scheme"
    by (rule before_advanced_total)
  show "before_advanced a b \<Longrightarrow> before_advanced b c \<Longrightarrow> before_advanced a c"
    for a b c :: "('a, 'b) pet_scheme"
    by (rule before_advanced_trans)
qed

lemma add_scores_scored:
  "add_scores now m x = Inr y \<Longrightarrow> scored_entry now m (add_total y)"
  by (auto simp: add_scores_def freshness_score_def location_score_def add_total_def
        scored_entry_def split: stamp.splits)

lemma advanced_ranking:
  assumes "getAdvancedPetRecommendations rx now pets users q = Inr out"
    and "district_regex rx (r_district q) = Inr m"
    and "limit_stage (r_limit q) = Inr n"
  shows "\<exists>ranked. out = map project_advanced ranked \<and> length out \<le> n \<and>
           sorted_wrt before_advanced ranked \<and>
           (\<forall>e \<in> set ranked. scored_entry now m e)"
proof -
  from assms obtain scored xs where
    sc: "each_document (add_scores now m) xs = Inr scored"
    and out: "out = map project_advanced (take n (sort_by before_advanced (map add_total scored)))"
    by (elim advanced_Inr) simp
  let ?ranked = "take n (sort_by before_advanced (map add_total scored))"
  have "\<forall>e \<in> set ?ranked. scored_entry now m e"
  proof
    fix e assume "e \<in> set ?ranked"
    then have "e \<in> set (map add_total scored)"
      using set_sort_by in_set_takeD by metis
    then obtain y where y: "y \<in> set scored" "e = add_total y" by auto
    from each_document_source [OF sc y(1)] obtain x where "add_scores now m x = Inr y"
      by blast
    with y(2) show "scored_entry now m e" by (simp add: add_scores_scored)
  qed
  with out sorted_advanced [of n "map add_total scored"] show ?thesis
    by (intro exI [of _ ?ranked]) simp
qed

end
